theory Spec2Isabelle
  imports Main
begin

section \<open>Observable events and the environment of the controller\<close>

text \<open>
  WatchAD.py is a command-line controller. Everything it does is a call into a collaborator
  that lives outside the file: the logger, the functions of \<^verbatim>\<open>scripts.init_settings\<close>,
  \<^verbatim>\<open>subprocess.call\<close>, \<^verbatim>\<open>optparse\<close> and \<^verbatim>\<open>sys.exit\<close>. The model records each such call
  as an event, in the order in which the calls are made, and takes the value a collaborator
  returns from an environment (\<open>world\<close>). A collaborator's answer may depend on everything
  that happened before the call, so the environment reads the trace up to and including the
  call it answers. The logger and the functions of \<^verbatim>\<open>scripts.init_settings\<close> are modelled by
  the call made and the value returned.

  \<^verbatim>\<open>subprocess.call\<close> either returns the exit status of the command or raises: the script
  hands it a whole command line as one string together with \<^verbatim>\<open>shell=False\<close>, so the string
  is taken as the name of the program to run, and where no program has that name the call
  raises \<^verbatim>\<open>FileNotFoundError\<close> (an \<^verbatim>\<open>OSError\<close>) instead of returning. The script catches
  nothing, so a raising call ends the process. The environment decides which of the two
  happens.
\<close>

datatype level = INFO | ERROR

text \<open>
  The value of a string-valued optparse attribute (\<^verbatim>\<open>options.domain\<close> and the like):
  \<open>None\<close> when the flag was not given, otherwise the string given.
\<close>

type_synonym py_str = "string option"

datatype event =
    Log level string
  | PrintHelp string
  | InitEsTemplate
  | InitLdapSettings py_str py_str py_str py_str
  | GetAllDcNames py_str
  | InitDefaultSettings py_str
  | InitSensitiveGroups py_str
  | SetLearningEndTimeSetting
  | SetCrontabTasks
  | CheckEsTemplate
  | CheckMongoConnection
  | CheckMqConnection
  | SubprocessCall string bool "(string \<times> string) list"

text \<open>
  The attributes of the \<^verbatim>\<open>options\<close> object that \<^verbatim>\<open>parse_args\<close> returns. A
  \<^verbatim>\<open>store_true\<close> flag is \<^verbatim>\<open>True\<close> or \<^verbatim>\<open>None\<close>; only its truth value is read, so it is
  a \<open>bool\<close> here.
\<close>

record options =
  opt_install :: bool
  opt_domain :: py_str
  opt_server :: py_str
  opt_username :: py_str
  opt_password :: py_str
  opt_check :: bool
  opt_start :: bool
  opt_restart :: bool
  opt_stop :: bool
  opt_status :: bool

text \<open>
  \<^verbatim>\<open>parser.parse_args()\<close> either returns \<^verbatim>\<open>(options, args)\<close> or ends the process itself
  (\<^verbatim>\<open>--help\<close>, or a command line it rejects).
\<close>

datatype parse_outcome = Parsed options "string list" | ParserExit int

datatype action = StoreTrue | Store

record opt_spec =
  flags :: "string list"
  act :: action
  dest :: string

record parser =
  parser_usage :: string
  parser_options :: "opt_spec list"

datatype call_result = Exited int | RaisesOSError

record world =
  project_dir :: string
  probe :: "event list \<Rightarrow> bool"
  subprocess_result :: "event list \<Rightarrow> call_result"
  parse_args :: "parser \<Rightarrow> string list \<Rightarrow> parse_outcome"

text \<open>
  A function of the script returns a value, or leaves through \<^verbatim>\<open>sys.exit(c)\<close>, which ends
  the process with the status \<open>c\<close> it was given, or leaves through the exception of a
  raising \<^verbatim>\<open>subprocess.call\<close>, which nothing catches.
\<close>

datatype 'a outcome = Returned 'a | SystemExit int | UncaughtOSError

type_synonym 'a prog = "world \<Rightarrow> event list \<Rightarrow> 'a outcome \<times> event list"

definition ret :: "'a \<Rightarrow> 'a prog" where
  "ret a w tr = (Returned a, tr)"

definition bind_prog :: "'a prog \<Rightarrow> ('a \<Rightarrow> 'b prog) \<Rightarrow> 'b prog" where
  "bind_prog m f w tr =
     (case m w tr of
        (Returned a, tr') \<Rightarrow> f a w tr'
      | (SystemExit c, tr') \<Rightarrow> (SystemExit c, tr')
      | (UncaughtOSError, tr') \<Rightarrow> (UncaughtOSError, tr'))"

definition then_prog :: "'a prog \<Rightarrow> 'b prog \<Rightarrow> 'b prog" where
  "then_prog m n = bind_prog m (\<lambda>_. n)"

definition sys_exit :: "int \<Rightarrow> unit prog" where
  "sys_exit c w tr = (SystemExit c, tr)"

definition emit :: "event \<Rightarrow> unit prog" where
  "emit e w tr = (Returned (), tr @ [e])"

definition logger_info :: "string \<Rightarrow> unit prog" where
  "logger_info s = emit (Log INFO s)"

definition logger_error :: "string \<Rightarrow> unit prog" where
  "logger_error s = emit (Log ERROR s)"

definition ask_probe :: "event \<Rightarrow> bool prog" where
  "ask_probe e w tr = (Returned (probe w (tr @ [e])), tr @ [e])"

definition subprocess_call :: "string \<Rightarrow> bool \<Rightarrow> (string \<times> string) list \<Rightarrow> int prog" where
  "subprocess_call cmd shell env w tr =
     (let tr' = tr @ [SubprocessCall cmd shell env]
      in case subprocess_result w tr' of
           Exited rc \<Rightarrow> (Returned rc, tr')
         | RaisesOSError \<Rightarrow> (UncaughtOSError, tr'))"

subsection \<open>The functions imported from \<^verbatim>\<open>scripts.init_settings\<close>\<close>

definition init_es_template :: "unit prog" where
  "init_es_template = emit InitEsTemplate"

definition init_ldap_settings :: "py_str \<Rightarrow> py_str \<Rightarrow> py_str \<Rightarrow> py_str \<Rightarrow> unit prog" where
  "init_ldap_settings domain server user password =
     emit (InitLdapSettings domain server user password)"

definition get_all_dc_names :: "py_str \<Rightarrow> unit prog" where
  "get_all_dc_names domain = emit (GetAllDcNames domain)"

definition init_default_settings :: "py_str \<Rightarrow> unit prog" where
  "init_default_settings domain = emit (InitDefaultSettings domain)"

definition init_sensitive_groups :: "py_str \<Rightarrow> unit prog" where
  "init_sensitive_groups domain = emit (InitSensitiveGroups domain)"

definition set_learning_end_time_setting :: "unit prog" where
  "set_learning_end_time_setting = emit SetLearningEndTimeSetting"

definition set_crontab_tasks :: "unit prog" where
  "set_crontab_tasks = emit SetCrontabTasks"

definition check_es_template :: "bool prog" where
  "check_es_template = ask_probe CheckEsTemplate"

definition check_mongo_connection :: "bool prog" where
  "check_mongo_connection = ask_probe CheckMongoConnection"

definition check_mq_connection :: "bool prog" where
  "check_mq_connection = ask_probe CheckMqConnection"

section \<open>WatchAD.py\<close>

definition ENGINE_PROCESS_NUM :: int where
  "ENGINE_PROCESS_NUM = 5"

text \<open>Python's \<^verbatim>\<open>str\<close> on an integer: decimal digits, with a minus sign below zero.\<close>

definition digit_char :: "nat \<Rightarrow> char" where
  "digit_char d = ''0123456789'' ! d"

fun str_nat :: "nat \<Rightarrow> string" where
  "str_nat n = (if n < 10 then [digit_char n] else str_nat (n div 10) @ [digit_char (n mod 10)])"

definition str_int :: "int \<Rightarrow> string" where
  "str_int i = (if i < 0 then CHR ''-'' # str_nat (nat (- i)) else str_nat (nat i))"

definition install :: "py_str \<Rightarrow> py_str \<Rightarrow> py_str \<Rightarrow> py_str \<Rightarrow> unit prog" where
  "install domain server user password =
     then_prog (logger_info ''Install the WatchAD ...'')
    (then_prog init_es_template
    (then_prog (init_ldap_settings domain server user password)
    (then_prog (get_all_dc_names domain)
    (then_prog (init_default_settings domain)
    (then_prog (init_sensitive_groups domain)
    (then_prog set_learning_end_time_setting
     set_crontab_tasks))))))"

definition check :: "bool prog" where
  "check =
     then_prog (logger_info ''Checking the WatchAD environment ...'')
    (bind_prog check_es_template (\<lambda>es.
       if \<not> es then ret False else
     bind_prog check_mongo_connection (\<lambda>mongo.
       if \<not> mongo then ret False else
     bind_prog check_mq_connection (\<lambda>mq.
       if \<not> mq then ret False else
     then_prog (logger_info ''OK!'')
    (then_prog (logger_info ''Check the WatchAD environment successfully!'')
    (ret True))))))"

definition start :: "unit prog" where
  "start =
     bind_prog check (\<lambda>ok.
     then_prog (if \<not> ok then sys_exit (- 1) else ret ())
    (then_prog (logger_info ''Starting the WatchAD detect engine ...'')
    (bind_prog (\<lambda>w. subprocess_call
                  (''supervisord -c '' @ project_dir w @ ''/supervisor.conf'') False
                  [(''WATCHAD_ENGINE_DIR'', project_dir w),
                   (''WATCHAD_ENGINE_NUM'', str_int ENGINE_PROCESS_NUM)] w) (\<lambda>rsp.
     if rsp = 0 then logger_info ''Started!'' else logger_error ''Start failed.''))))"

definition stop :: "unit prog" where
  "stop =
     then_prog (logger_info ''Stopping the WatchAD detect engine ...'')
    (bind_prog (\<lambda>w. subprocess_call
                  (''supervisorctl -c '' @ project_dir w @ ''/supervisor.conf stop all'') False
                  [(''WATCHAD_ENGINE_DIR'', project_dir w),
                   (''WATCHAD_ENGINE_NUM'', str_int ENGINE_PROCESS_NUM)] w) (\<lambda>stop_rsp.
     then_prog (if stop_rsp = 0 then logger_info ''Stopped detection processes.''
                else logger_error ''Stop failed.'')
    (bind_prog (\<lambda>w. subprocess_call
                  (''supervisorctl -c '' @ project_dir w @ ''/supervisor.conf shutdown'') False
                  [(''WATCHAD_ENGINE_DIR'', project_dir w),
                   (''WATCHAD_ENGINE_NUM'', str_int ENGINE_PROCESS_NUM)] w) (\<lambda>shutdown_rsp.
     if shutdown_rsp = 0 then logger_info ''Shutdown WatchAD.''
     else logger_error ''Shutdown WatchAD failed.''))))"

definition restart :: "unit prog" where
  "restart = then_prog stop start"

definition status :: "unit prog" where
  "status =
     bind_prog (\<lambda>w. subprocess_call
                  (''supervisorctl -c '' @ project_dir w @ ''/supervisor.conf status'') False
                  [(''WATCHAD_ENGINE_DIR'', project_dir w)] w) (\<lambda>_. ret ())"

definition usage :: string where
  "usage = ''Usage:  WatchAD.py <options> [settings]''"

text \<open>The option table that \<^verbatim>\<open>parse_option\<close> builds (the help texts are left out).\<close>

definition parse_option :: parser where
  "parse_option = \<lparr>parser_usage = usage, parser_options =
     [\<lparr>flags = [''--install''], act = StoreTrue, dest = ''install''\<rparr>,
      \<lparr>flags = [''-d'', ''--domain''], act = Store, dest = ''domain''\<rparr>,
      \<lparr>flags = [''-s'', ''--ldap-server''], act = Store, dest = ''server''\<rparr>,
      \<lparr>flags = [''-u'', ''--domain-user''], act = Store, dest = ''username''\<rparr>,
      \<lparr>flags = [''-p'', ''--domain-passwd''], act = Store, dest = ''password''\<rparr>,
      \<lparr>flags = [''--check''], act = StoreTrue, dest = ''check''\<rparr>,
      \<lparr>flags = [''--start''], act = StoreTrue, dest = ''start''\<rparr>,
      \<lparr>flags = [''--restart''], act = StoreTrue, dest = ''restart''\<rparr>,
      \<lparr>flags = [''--stop''], act = StoreTrue, dest = ''stop''\<rparr>,
      \<lparr>flags = [''--status''], act = StoreTrue, dest = ''status''\<rparr>]\<rparr>"

definition print_help :: "parser \<Rightarrow> unit prog" where
  "print_help p = emit (PrintHelp (parser_usage p))"

text \<open>\<^verbatim>\<open>parser.parse_args()\<close> reads \<^verbatim>\<open>sys.argv[1:]\<close>.\<close>

definition parser_parse_args :: "parser \<Rightarrow> string list \<Rightarrow> (options \<times> string list) prog" where
  "parser_parse_args p argv w tr =
     (case parse_args w p (drop 1 argv) of
        Parsed opts args \<Rightarrow> (Returned (opts, args), tr)
      | ParserExit c \<Rightarrow> (SystemExit c, tr))"

text \<open>Python's \<^verbatim>\<open>not v\<close> on a value that is \<^verbatim>\<open>None\<close> or a string.\<close>

definition py_not :: "py_str \<Rightarrow> bool" where
  "py_not v = (v = None \<or> v = Some [])"

text \<open>The \<^verbatim>\<open>if\<close>/\<^verbatim>\<open>elif\<close> chain that ends \<^verbatim>\<open>main\<close>, on the parsed options.\<close>

definition dispatch :: "options \<Rightarrow> unit prog" where
  "dispatch opts =
     (if opt_install opts then
        then_prog
          (if py_not (opt_domain opts) \<or> py_not (opt_server opts)
              \<or> py_not (opt_username opts) \<or> py_not (opt_password opts)
           then then_prog
                  (logger_error
                     ''WatchAD install action must provide domain, server, user and password params.'')
                  (sys_exit 1)
           else ret ())
          (install (opt_domain opts) (opt_server opts) (opt_username opts) (opt_password opts))
      else if opt_check opts then bind_prog check (\<lambda>_. ret ())
      else if opt_start opts then start
      else if opt_restart opts then restart
      else if opt_stop opts then stop
      else if opt_status opts then status
      else ret ())"

definition main :: "string list \<Rightarrow> unit prog" where
  "main argv =
     then_prog
       (if length argv < 2
        then then_prog (logger_error ''WatchAD must run with an action.'')
            (then_prog (print_help parse_option) (sys_exit 1))
        else ret ())
       (bind_prog (parser_parse_args parse_option argv) (\<lambda>(opts, args). dispatch opts))"

text \<open>
  The script: \<^verbatim>\<open>main()\<close> runs from an empty trace; a normal return ends the process with
  status 0, \<^verbatim>\<open>sys.exit(c)\<close> with the status \<open>c\<close> it was given, an uncaught exception
  with status 1.
\<close>

definition exit_status :: "'a outcome \<Rightarrow> int" where
  "exit_status r = (case r of Returned _ \<Rightarrow> 0 | SystemExit c \<Rightarrow> c | UncaughtOSError \<Rightarrow> 1)"

definition run_script :: "world \<Rightarrow> string list \<Rightarrow> int \<times> event list" where
  "run_script w argv = (case main argv w [] of (r, tr) \<Rightarrow> (exit_status r, tr))"

section \<open>Reading a trace\<close>

text \<open>The events a function adds to the trace it was started on.\<close>

definition new_events :: "event list \<Rightarrow> 'a outcome \<times> event list \<Rightarrow> event list" where
  "new_events tr r = drop (length tr) (snd r)"

fun is_bootstrap_step :: "event \<Rightarrow> bool" where
  "is_bootstrap_step InitEsTemplate = True"
| "is_bootstrap_step (InitLdapSettings _ _ _ _) = True"
| "is_bootstrap_step (GetAllDcNames _) = True"
| "is_bootstrap_step (InitDefaultSettings _) = True"
| "is_bootstrap_step (InitSensitiveGroups _) = True"
| "is_bootstrap_step SetLearningEndTimeSetting = True"
| "is_bootstrap_step SetCrontabTasks = True"
| "is_bootstrap_step _ = False"

definition bootstrap_steps :: "event list \<Rightarrow> event list" where
  "bootstrap_steps tr = filter is_bootstrap_step tr"

text \<open>The command lines and the environments of the supervisor invocations, in order.\<close>

fun supervisor_cmds :: "event list \<Rightarrow> string list" where
  "supervisor_cmds [] = []"
| "supervisor_cmds (SubprocessCall cmd _ _ # es) = cmd # supervisor_cmds es"
| "supervisor_cmds (_ # es) = supervisor_cmds es"

fun supervisor_envs :: "event list \<Rightarrow> (string \<times> string) list list" where
  "supervisor_envs [] = []"
| "supervisor_envs (SubprocessCall _ _ env # es) = env # supervisor_envs es"
| "supervisor_envs (_ # es) = supervisor_envs es"

text \<open>
  The environment with the two variables: the engine root directory and the worker count,
  the latter the module constant rendered by \<^verbatim>\<open>str\<close>.
\<close>

definition engine_env :: "world \<Rightarrow> (string \<times> string) list" where
  "engine_env w = [(''WATCHAD_ENGINE_DIR'', project_dir w),
                   (''WATCHAD_ENGINE_NUM'', str_int ENGINE_PROCESS_NUM)]"

definition carries_dir_and_num :: "world \<Rightarrow> (string \<times> string) list \<Rightarrow> bool" where
  "carries_dir_and_num w env =
     (length env = 2
      \<and> map_of env ''WATCHAD_ENGINE_DIR'' = Some (project_dir w)
      \<and> map_of env ''WATCHAD_ENGINE_NUM'' = Some (str_int ENGINE_PROCESS_NUM))"

subsection \<open>Stop attempts both supervisor commands\<close>


subsection \<open>Stop followed by start, as the specification words restart\<close>

text \<open>
  \<^verbatim>\<open>stop\<close> is run first. When it has run to completion, \<^verbatim>\<open>start\<close> is run from the trace
  that \<^verbatim>\<open>stop\<close> leaves. When \<^verbatim>\<open>stop\<close> ends the process instead, nothing more is run.
\<close>

definition stop_then_start_spec :: "unit prog" where
  "stop_then_start_spec w tr =
     (let r = stop w tr
      in case fst r of
           Returned _ \<Rightarrow> start w (snd r)
         | SystemExit c \<Rightarrow> (SystemExit c, snd r)
         | UncaughtOSError \<Rightarrow> (UncaughtOSError, snd r))"

subsection \<open>The verb an invocation selects\<close>

datatype verb = Install | Check | Start | Restart | Stop | Status

fun flag :: "options \<Rightarrow> verb \<Rightarrow> bool" where
  "flag opts Install = opt_install opts"
| "flag opts Check = opt_check opts"
| "flag opts Start = opt_start opts"
| "flag opts Restart = opt_restart opts"
| "flag opts Stop = opt_stop opts"
| "flag opts Status = opt_status opts"

definition precedence :: "verb list" where
  "precedence = [Install, Check, Start, Restart, Stop, Status]"

definition selected_verb :: "options \<Rightarrow> verb option" where
  "selected_verb opts = List.find (flag opts) precedence"

text \<open>The options in which \<open>v\<close> is the only verb flag set; the four settings are kept.\<close>

definition only_verb :: "verb \<Rightarrow> options \<Rightarrow> options" where
  "only_verb v opts = opts\<lparr>opt_install := (v = Install), opt_check := (v = Check),
     opt_start := (v = Start), opt_restart := (v = Restart), opt_stop := (v = Stop),
     opt_status := (v = Status)\<rparr>"

text \<open>What each verb runs when it is the one selected.\<close>

fun verb_action :: "verb \<Rightarrow> options \<Rightarrow> unit prog" where
  "verb_action Install opts =
     then_prog
       (if py_not (opt_domain opts) \<or> py_not (opt_server opts)
           \<or> py_not (opt_username opts) \<or> py_not (opt_password opts)
        then then_prog
               (logger_error
                  ''WatchAD install action must provide domain, server, user and password params.'')
               (sys_exit 1)
        else ret ())
       (install (opt_domain opts) (opt_server opts) (opt_username opts) (opt_password opts))"
| "verb_action Check opts = bind_prog check (\<lambda>_. ret ())"
| "verb_action Start opts = start"
| "verb_action Restart opts = restart"
| "verb_action Stop opts = stop"
| "verb_action Status opts = status"

subsection \<open>Concrete environments\<close>

definition no_options :: options where
  "no_options = \<lparr>opt_install = False, opt_domain = None, opt_server = None,
     opt_username = None, opt_password = None, opt_check = False, opt_start = False,
     opt_restart = False, opt_stop = False, opt_status = False\<rparr>"

text \<open>
  An environment installed under \<^verbatim>\<open>/opt/WatchAD\<close>: a probe answers by \<open>pr\<close>, a call of a
  supervisor command line ends as \<open>rc\<close> says, and the command line parses to \<open>opts\<close>.
\<close>

definition example_world ::
    "(event \<Rightarrow> bool) \<Rightarrow> (string \<Rightarrow> call_result) \<Rightarrow> options \<Rightarrow> world" where
  "example_world pr rc opts =
     \<lparr>project_dir = ''/opt/WatchAD'',
      probe = (\<lambda>tr. case rev tr of [] \<Rightarrow> False | e # _ \<Rightarrow> pr e),
      subprocess_result =
        (\<lambda>tr. case rev tr of SubprocessCall cmd _ _ # _ \<Rightarrow> rc cmd | _ \<Rightarrow> Exited 0),
      parse_args = (\<lambda>p args. Parsed opts [])\<rparr>"

definition install_without_server :: options where
  "install_without_server =
     no_options\<lparr>opt_install := True, opt_domain := Some ''corp.example.com''\<rparr>"

definition domain_only :: options where
  "domain_only = no_options\<lparr>opt_domain := Some ''corp.example.com''\<rparr>"

definition every_verb :: options where
  "every_verb = \<lparr>opt_install = True, opt_domain = Some ''corp.example.com'',
     opt_server = Some ''dc01.corp.example.com'', opt_username = Some ''peter'',
     opt_password = Some ''secret'', opt_check = True, opt_start = True,
     opt_restart = True, opt_stop = True, opt_status = True\<rparr>"

text \<open>All three dependencies ready, every supervisor command succeeds.\<close>

definition healthy_world :: "options \<Rightarrow> world" where
  "healthy_world opts = example_world (\<lambda>_. True) (\<lambda>_. Exited 0) opts"

text \<open>The message queue is unreachable; the other two dependencies are ready.\<close>

definition mq_down_world :: "options \<Rightarrow> world" where
  "mq_down_world opts = example_world (\<lambda>e. e \<noteq> CheckMqConnection) (\<lambda>_. Exited 0) opts"

text \<open>All three dependencies ready, every call of a supervisor command returns status 1.\<close>

definition supervisor_failing_world :: "options \<Rightarrow> world" where
  "supervisor_failing_world opts = example_world (\<lambda>_. True) (\<lambda>_. Exited 1) opts"


section \<open>The traces of the operations\<close>

lemmas prog_defs = ret_def bind_prog_def then_prog_def sys_exit_def emit_def logger_info_def
  logger_error_def ask_probe_def subprocess_call_def

lemma str_engine_num: "str_int ENGINE_PROCESS_NUM = ''5''"
  by (simp add: str_int_def ENGINE_PROCESS_NUM_def digit_char_def)

lemma supervisor_cmds_append:
  "supervisor_cmds (ys @ zs) = supervisor_cmds ys @ supervisor_cmds zs"
  by (induction ys rule: supervisor_cmds.induct) simp_all

lemma supervisor_envs_append:
  "supervisor_envs (ys @ zs) = supervisor_envs ys @ supervisor_envs zs"
  by (induction ys rule: supervisor_envs.induct) simp_all

lemma install_trace:
  "install d s u p w tr =
     (Returned (), tr @ [Log INFO ''Install the WatchAD ...'', InitEsTemplate,
        InitLdapSettings d s u p, GetAllDcNames d, InitDefaultSettings d,
        InitSensitiveGroups d, SetLearningEndTimeSetting, SetCrontabTasks])"
  by (simp add: install_def prog_defs init_es_template_def init_ldap_settings_def
      get_all_dc_names_def init_default_settings_def init_sensitive_groups_def
      set_learning_end_time_setting_def set_crontab_tasks_def)

lemma check_cases:
  "check w tr =
    (let t1 = tr @ [Log INFO ''Checking the WatchAD environment ...'', CheckEsTemplate];
         t2 = t1 @ [CheckMongoConnection];
         t3 = t2 @ [CheckMqConnection]
     in if \<not> probe w t1 then (Returned False, t1)
        else if \<not> probe w t2 then (Returned False, t2)
        else if \<not> probe w t3 then (Returned False, t3)
        else (Returned True,
              t3 @ [Log INFO ''OK!'', Log INFO ''Check the WatchAD environment successfully!'']))"
  by (simp add: check_def prog_defs check_es_template_def check_mongo_connection_def
      check_mq_connection_def Let_def)

text \<open>\<^verbatim>\<open>check\<close> always returns, and adds neither a supervisor call nor a bootstrap step.\<close>

lemma check_returns: "\<exists>b. fst (check w tr) = Returned b"
  by (auto simp: check_cases Let_def)

lemma check_extends:
  "\<exists>xs. snd (check w tr) = tr @ xs \<and> supervisor_cmds xs = [] \<and> supervisor_envs xs = []"
  by (auto simp: check_cases Let_def)

lemma check_no_supervisor: "supervisor_cmds (new_events tr (check w tr)) = []"
  by (simp add: check_cases Let_def new_events_def)

lemma stop_trace:
  "stop w tr =
    (let c1 = SubprocessCall
                (''supervisorctl -c '' @ project_dir w @ ''/supervisor.conf stop all'') False
                (engine_env w);
         c2 = SubprocessCall
                (''supervisorctl -c '' @ project_dir w @ ''/supervisor.conf shutdown'') False
                (engine_env w);
         t1 = tr @ [Log INFO ''Stopping the WatchAD detect engine ...'', c1]
     in case subprocess_result w t1 of
          RaisesOSError \<Rightarrow> (UncaughtOSError, t1)
        | Exited stop_rsp \<Rightarrow>
            let t2 = t1 @ [if stop_rsp = 0 then Log INFO ''Stopped detection processes.''
                           else Log ERROR ''Stop failed.'', c2]
            in case subprocess_result w t2 of
                 RaisesOSError \<Rightarrow> (UncaughtOSError, t2)
               | Exited shutdown_rsp \<Rightarrow>
                   (Returned (),
                    t2 @ [if shutdown_rsp = 0 then Log INFO ''Shutdown WatchAD.''
                          else Log ERROR ''Shutdown WatchAD failed.'']))"
  by (simp add: stop_def prog_defs engine_env_def Let_def split: call_result.splits)

text \<open>\<^verbatim>\<open>stop\<close> never calls \<^verbatim>\<open>sys.exit\<close>: it returns, or one of its two calls raises.\<close>

lemma stop_outcome: "fst (stop w tr) = Returned () \<or> fst (stop w tr) = UncaughtOSError"
  by (simp add: stop_trace Let_def split: call_result.splits)

lemma start_cases:
  "start w tr =
    (case check w tr of
       (Returned ok, t0) \<Rightarrow>
         if \<not> ok then (SystemExit (- 1), t0)
         else let t1 = t0 @ [Log INFO ''Starting the WatchAD detect engine ...'',
                        SubprocessCall
                          (''supervisord -c '' @ project_dir w @ ''/supervisor.conf'') False
                          (engine_env w)]
              in case subprocess_result w t1 of
                   RaisesOSError \<Rightarrow> (UncaughtOSError, t1)
                 | Exited rsp \<Rightarrow>
                     (Returned (),
                      t1 @ [if rsp = 0 then Log INFO ''Started!''
                            else Log ERROR ''Start failed.''])
     | (SystemExit c, t0) \<Rightarrow> (SystemExit c, t0)
     | (UncaughtOSError, t0) \<Rightarrow> (UncaughtOSError, t0))"
  by (cases "check w tr"; cases "fst (check w tr)")
     (auto simp: start_def prog_defs engine_env_def Let_def split: call_result.splits)

lemma status_trace:
  "status w tr =
    (let t1 = tr @ [SubprocessCall
                (''supervisorctl -c '' @ project_dir w @ ''/supervisor.conf status'') False
                [(''WATCHAD_ENGINE_DIR'', project_dir w)]]
     in (case subprocess_result w t1 of
           RaisesOSError \<Rightarrow> UncaughtOSError
         | Exited _ \<Rightarrow> Returned (), t1))"
  by (simp add: status_def prog_defs Let_def split: call_result.splits)

subsection \<open>\<^verbatim>\<open>main\<close>\<close>

lemma main_no_arguments:
  assumes "length argv < 2"
  shows "main argv w tr =
           (SystemExit 1, tr @ [Log ERROR ''WatchAD must run with an action.'', PrintHelp usage])"
  using assms by (simp add: main_def prog_defs print_help_def parse_option_def)

lemma main_parser_exit:
  assumes "2 \<le> length argv" and "parse_args w parse_option (drop 1 argv) = ParserExit c"
  shows "main argv w tr = (SystemExit c, tr)"
  using assms by (simp add: main_def prog_defs parser_parse_args_def)

lemma main_parsed:
  assumes "2 \<le> length argv" and "parse_args w parse_option (drop 1 argv) = Parsed opts args"
  shows "main argv w tr = dispatch opts w tr"
  using assms by (simp add: main_def prog_defs parser_parse_args_def)

lemma dispatch_selected:
  assumes "selected_verb opts = Some v"
  shows "dispatch opts = verb_action v opts"
  using assms
  by (cases v) (auto simp: selected_verb_def precedence_def dispatch_def split: if_splits)

lemma dispatch_none:
  assumes "selected_verb opts = None"
  shows "dispatch opts = ret ()"
  using assms by (auto simp: selected_verb_def precedence_def dispatch_def split: if_splits)

lemma main_no_verb:
  assumes "2 \<le> length argv"
    and "parse_args w parse_option (drop 1 argv) = Parsed opts args"
    and "selected_verb opts = None"
  shows "main argv w tr = (Returned (), tr)"
  using main_parsed [OF assms(1,2)] dispatch_none [OF assms(3)] by (simp add: ret_def)

text \<open>
  The process ends with the status of the selected verb's action: 0 when the action
  returns, the argument of \<^verbatim>\<open>sys.exit\<close> when it leaves that way.
\<close>

lemma script_runs_selected_verb:
  assumes "2 \<le> length argv"
    and "parse_args w parse_option (drop 1 argv) = Parsed opts args"
    and "selected_verb opts = Some v"
  shows "run_script w argv =
           (exit_status (fst (verb_action v opts w [])), snd (verb_action v opts w []))"
  using main_parsed [OF assms(1,2), of "[]"] dispatch_selected [OF assms(3)]
  by (simp add: run_script_def split: prod.splits)

section \<open>Dependency check\<close>

text \<open>
  C3. \<^verbatim>\<open>check\<close> returns true exactly when the search-index template probe, the
  document-store probe and the message-queue probe all answer true, and false otherwise.
  The probes are asked in that order, and the trace stops at the first one that answers
  false: when the search-index probe fails neither of the other two is asked, when the
  document-store probe fails the message-queue probe is not asked. Here \<open>t1\<close>, \<open>t2\<close>, \<open>t3\<close>
  are the traces at which the three probes are (or would be) asked.
\<close>

theorem check_conjunction_short_circuit:
  "(let t1 = tr @ [Log INFO ''Checking the WatchAD environment ...'', CheckEsTemplate];
        t2 = t1 @ [CheckMongoConnection];
        t3 = t2 @ [CheckMqConnection]
    in (fst (check w tr) = Returned True) = (probe w t1 \<and> probe w t2 \<and> probe w t3)
       \<and> (fst (check w tr) = Returned False) = (\<not> (probe w t1 \<and> probe w t2 \<and> probe w t3))
       \<and> snd (check w tr) =
           (if \<not> probe w t1 then t1
            else if \<not> probe w t2 then t2
            else if \<not> probe w t3 then t3
            else t3 @ [Log INFO ''OK!'',
                       Log INFO ''Check the WatchAD environment successfully!'']))"
  by (simp add: check_cases Let_def)

section \<open>Start\<close>

text \<open>
  C1. In every environment and at every point of a run at which \<^verbatim>\<open>check\<close> returns
  false, \<^verbatim>\<open>start\<close> leaves through \<^verbatim>\<open>sys.exit(-1)\<close> right after the check: its trace is
  the trace of the check, it contains no supervisor invocation, and the process status is
  \<open>-1\<close>.
\<close>

theorem start_gated_by_check:
  assumes "fst (check w tr) = Returned False"
  shows "start w tr = (SystemExit (- 1), snd (check w tr))
         \<and> supervisor_cmds (new_events tr (start w tr)) = []
         \<and> exit_status (fst (start w tr)) = - 1"
proof -
  from assms have st: "start w tr = (SystemExit (- 1), snd (check w tr))"
    by (cases "check w tr") (simp add: start_cases)
  have "new_events tr (start w tr) = new_events tr (check w tr)"
    by (simp add: st new_events_def)
  then show ?thesis
    by (simp add: st check_no_supervisor exit_status_def)
qed

text \<open>The message queue is down, the other two dependencies are ready.\<close>

theorem start_gated_by_check_witness:
  "fst (check (mq_down_world no_options) []) = Returned False
   \<and> start (mq_down_world no_options) [] =
       (SystemExit (- 1), [Log INFO ''Checking the WatchAD environment ...'', CheckEsTemplate,
          CheckMongoConnection, CheckMqConnection])"
proof -
  have h: "check (mq_down_world no_options) [] =
      (Returned False, [Log INFO ''Checking the WatchAD environment ...'', CheckEsTemplate,
          CheckMongoConnection, CheckMqConnection])"
    by (simp add: check_cases Let_def mq_down_world_def example_world_def)
  then have h1: "fst (check (mq_down_world no_options) []) = Returned False"
    by simp
  show ?thesis
    using start_gated_by_check [OF h1] h by simp
qed

text \<open>
  C7. When \<^verbatim>\<open>check\<close> returns true and the call of the supervisor start command returns
  a status other than 0, \<^verbatim>\<open>start\<close> logs the error \<^verbatim>\<open>Start failed.\<close> and returns: the supervisor
  is invoked once, nothing follows the error message, and the process status is 0.
\<close>

theorem start_supervisor_failure_not_fatal:
  assumes "fst (check w tr) = Returned True"
    and "subprocess_result w
           (snd (check w tr) @ [Log INFO ''Starting the WatchAD detect engine ...'',
              SubprocessCall (''supervisord -c '' @ project_dir w @ ''/supervisor.conf'') False
                (engine_env w)]) = Exited rsp"
    and "rsp \<noteq> 0"
  shows "start w tr =
           (Returned (), snd (check w tr) @ [Log INFO ''Starting the WatchAD detect engine ...'',
              SubprocessCall (''supervisord -c '' @ project_dir w @ ''/supervisor.conf'') False
                (engine_env w),
              Log ERROR ''Start failed.''])
         \<and> supervisor_cmds (new_events tr (start w tr)) =
             [''supervisord -c '' @ project_dir w @ ''/supervisor.conf'']
         \<and> exit_status (fst (start w tr)) = 0"
proof -
  from assms have st: "start w tr =
      (Returned (), snd (check w tr) @ [Log INFO ''Starting the WatchAD detect engine ...'',
         SubprocessCall (''supervisord -c '' @ project_dir w @ ''/supervisor.conf'') False
           (engine_env w),
         Log ERROR ''Start failed.''])"
    by (cases "check w tr") (simp add: start_cases Let_def)
  obtain xs where xs: "snd (check w tr) = tr @ xs" "supervisor_cmds xs = []"
    using check_extends by blast
  show ?thesis
    by (simp add: st xs new_events_def supervisor_cmds_append exit_status_def)
qed

text \<open>All dependencies are ready and the call of the supervisor command returns status 1.\<close>

theorem start_supervisor_failure_not_fatal_witness:
  "start (supervisor_failing_world no_options) [] =
     (Returned (), [Log INFO ''Checking the WatchAD environment ...'', CheckEsTemplate,
        CheckMongoConnection, CheckMqConnection, Log INFO ''OK!'',
        Log INFO ''Check the WatchAD environment successfully!'',
        Log INFO ''Starting the WatchAD detect engine ...'',
        SubprocessCall ''supervisord -c /opt/WatchAD/supervisor.conf'' False
          [(''WATCHAD_ENGINE_DIR'', ''/opt/WatchAD''), (''WATCHAD_ENGINE_NUM'', ''5'')],
        Log ERROR ''Start failed.''])"
proof -
  have h: "check (supervisor_failing_world no_options) [] =
      (Returned True, [Log INFO ''Checking the WatchAD environment ...'', CheckEsTemplate,
        CheckMongoConnection, CheckMqConnection, Log INFO ''OK!'',
        Log INFO ''Check the WatchAD environment successfully!''])"
    by (simp add: check_cases Let_def supervisor_failing_world_def example_world_def)
  have a: "fst (check (supervisor_failing_world no_options) []) = Returned True"
    by (simp add: h)
  have b: "subprocess_result (supervisor_failing_world no_options)
             (snd (check (supervisor_failing_world no_options) []) @
              [Log INFO ''Starting the WatchAD detect engine ...'',
               SubprocessCall
                 (''supervisord -c '' @ project_dir (supervisor_failing_world no_options)
                    @ ''/supervisor.conf'')
                 False (engine_env (supervisor_failing_world no_options))]) = Exited 1"
    by (simp add: h supervisor_failing_world_def example_world_def)
  have c: "(1::int) \<noteq> 0"
    by simp
  have pd: "project_dir (supervisor_failing_world no_options) = ''/opt/WatchAD''"
    by (simp add: supervisor_failing_world_def example_world_def)
  show ?thesis
    using start_supervisor_failure_not_fatal [OF a b c]
    by (simp add: h engine_env_def str_engine_num pd)
qed

section \<open>Stop and restart\<close>




text \<open>
  C6. \<^verbatim>\<open>restart\<close> is \<^verbatim>\<open>stop\<close> run to completion followed by \<^verbatim>\<open>start\<close> run from the
  trace that \<^verbatim>\<open>stop\<close> leaves: same outcome, same trace, in every environment and from
  every trace, and nothing besides the events of the two. \<^verbatim>\<open>stop\<close> never calls
  \<^verbatim>\<open>sys.exit\<close>; where one of its calls raises, \<^verbatim>\<open>restart\<close> ends there with the trace of
  \<^verbatim>\<open>stop\<close>, as the sequence of the two does.
\<close>

theorem restart_refines_stop_then_start:
  "restart = stop_then_start_spec
   \<and> restart w tr =
       (if fst (stop w tr) = Returned () then start w (snd (stop w tr))
        else (UncaughtOSError, snd (stop w tr)))"
proof -
  have eq: "restart w' tr' = stop_then_start_spec w' tr'" for w' tr'
    by (cases "stop w' tr'")
       (simp add: restart_def stop_then_start_spec_def then_prog_def bind_prog_def Let_def
          split: outcome.splits)
  have "stop_then_start_spec w tr =
       (if fst (stop w tr) = Returned () then start w (snd (stop w tr))
        else (UncaughtOSError, snd (stop w tr)))"
    using stop_outcome [of w tr] by (auto simp: stop_then_start_spec_def Let_def)
  with eq show ?thesis
    by (simp add: fun_eq_iff)
qed

section \<open>Install\<close>

text \<open>
  C5. \<^verbatim>\<open>install\<close> returns after exactly seven bootstrap steps, in this order: the
  search-index template, the directory-service settings, the domain-controller names, the
  default settings, the sensitive groups, the learning end time, the scheduled tasks. The
  scheduled tasks are the last event of the run.
\<close>

theorem install_runs_seven_steps_in_order:
  "fst (install d s u p w tr) = Returned ()
   \<and> bootstrap_steps (new_events tr (install d s u p w tr)) =
       [InitEsTemplate, InitLdapSettings d s u p, GetAllDcNames d, InitDefaultSettings d,
        InitSensitiveGroups d, SetLearningEndTimeSetting, SetCrontabTasks]
   \<and> length (bootstrap_steps (new_events tr (install d s u p w tr))) = 7
   \<and> last (snd (install d s u p w tr)) = SetCrontabTasks"
  by (simp add: install_trace new_events_def bootstrap_steps_def)

text \<open>
  C4. When the command line parses to options with \<^verbatim>\<open>install\<close> set and at least one of
  domain, server, username and password absent or the empty string, the process logs one
  error and ends with status 1; the trace holds nothing else, so no bootstrap step ran.
\<close>

theorem install_incomplete_config_rejected:
  assumes "2 \<le> length argv"
    and "parse_args w parse_option (drop 1 argv) = Parsed opts args"
    and "opt_install opts"
    and "\<exists>v \<in> {opt_domain opts, opt_server opts, opt_username opts, opt_password opts}.
           v = None \<or> v = Some []"
  shows "run_script w argv =
           (1, [Log ERROR
             ''WatchAD install action must provide domain, server, user and password params.''])
         \<and> bootstrap_steps (snd (run_script w argv)) = []"
proof -
  from assms(4) have "py_not (opt_domain opts) \<or> py_not (opt_server opts)
      \<or> py_not (opt_username opts) \<or> py_not (opt_password opts)"
    by (auto simp: py_not_def)
  then have "dispatch opts w [] =
      (SystemExit 1, [Log ERROR
         ''WatchAD install action must provide domain, server, user and password params.''])"
    using assms(3) by (simp add: dispatch_def prog_defs)
  then show ?thesis
    using main_parsed [OF assms(1,2), of "[]"]
    by (simp add: run_script_def exit_status_def bootstrap_steps_def)
qed

text \<open>\<^verbatim>\<open>WatchAD.py --install -d corp.example.com\<close>: server, user and password are missing.\<close>

theorem install_incomplete_config_rejected_witness:
  "run_script (healthy_world install_without_server)
     [''WatchAD.py'', ''--install'', ''-d'', ''corp.example.com''] =
     (1, [Log ERROR
        ''WatchAD install action must provide domain, server, user and password params.''])"
proof -
  have a: "2 \<le> length [''WatchAD.py'', ''--install'', ''-d'', ''corp.example.com'']"
    by simp
  have b: "parse_args (healthy_world install_without_server) parse_option
             (drop 1 [''WatchAD.py'', ''--install'', ''-d'', ''corp.example.com'']) =
           Parsed install_without_server []"
    by (simp add: healthy_world_def example_world_def)
  have c: "opt_install install_without_server"
    by (simp add: install_without_server_def no_options_def)
  have d: "\<exists>v \<in> {opt_domain install_without_server, opt_server install_without_server,
             opt_username install_without_server, opt_password install_without_server}.
           v = None \<or> v = Some []"
    by (simp add: install_without_server_def no_options_def)
  show ?thesis
    using install_incomplete_config_rejected [OF a b c d] by simp
qed

section \<open>The command line\<close>

text \<open>
  C8. The claim is that every invocation without a verb flag logs an error, prints the
  help and ends with a status other than 0. \<^verbatim>\<open>main\<close> does so only when the command line
  has no argument at all (\<open>main_no_arguments\<close>). With arguments and no verb flag no branch of
  the chain is taken (\<open>main_no_verb\<close>): \<^verbatim>\<open>WatchAD.py -d corp.example.com\<close> logs nothing,
  prints nothing and ends with status 0.
\<close>

theorem main_without_verb_is_silent:
  "run_script (healthy_world domain_only) [''WatchAD.py'', ''-d'', ''corp.example.com''] = (0, [])"
proof -
  have "selected_verb domain_only = None"
    by (simp add: selected_verb_def precedence_def domain_only_def no_options_def)
  moreover have "parse_args (healthy_world domain_only) parse_option
      (drop 1 [''WatchAD.py'', ''-d'', ''corp.example.com'']) = Parsed domain_only []"
    by (simp add: healthy_world_def example_world_def)
  ultimately have "main [''WatchAD.py'', ''-d'', ''corp.example.com'']
      (healthy_world domain_only) [] = (Returned (), [])"
    by (intro main_no_verb) simp_all
  then show ?thesis
    by (simp add: run_script_def exit_status_def)
qed

text \<open>
  C10. When the parsed options set one or more verb flags, the run is the action of the
  first flag set in the order install, check, start, restart, stop, status, and of no other
  verb: the invocation behaves as one in which that flag is the only verb flag set.
\<close>

theorem first_flag_in_chain_runs:
  assumes "2 \<le> length argv"
    and "parse_args w parse_option (drop 1 argv) = Parsed opts args"
    and "selected_verb opts = Some v"
  shows "main argv w tr = verb_action v opts w tr
         \<and> dispatch opts = dispatch (only_verb v opts)"
proof -
  have "selected_verb (only_verb v opts) = Some v"
    by (cases v) (simp_all add: selected_verb_def precedence_def only_verb_def)
  then have "dispatch (only_verb v opts) = verb_action v (only_verb v opts)"
    by (rule dispatch_selected)
  moreover have "verb_action v (only_verb v opts) = verb_action v opts"
    by (cases v) (simp_all add: only_verb_def)
  ultimately show ?thesis
    using main_parsed [OF assms(1,2)] dispatch_selected [OF assms(3)] by simp
qed

text \<open>All six verb flags at once: install runs.\<close>

theorem first_flag_in_chain_runs_witness:
  "selected_verb every_verb = Some Install
   \<and> main [''WatchAD.py'', ''--status'', ''--stop'', ''--install''] (healthy_world every_verb) [] =
       verb_action Install every_verb (healthy_world every_verb) []"
proof -
  have a: "2 \<le> length [''WatchAD.py'', ''--status'', ''--stop'', ''--install'']"
    by simp
  have b: "parse_args (healthy_world every_verb) parse_option
      (drop 1 [''WatchAD.py'', ''--status'', ''--stop'', ''--install'']) = Parsed every_verb []"
    by (simp add: healthy_world_def example_world_def)
  have c: "selected_verb every_verb = Some Install"
    by (simp add: selected_verb_def precedence_def every_verb_def)
  show ?thesis
    using first_flag_in_chain_runs [OF a b c] c by simp
qed

section \<open>The environment handed to the supervisor\<close>

text \<open>
  C9, as claimed: every supervisor invocation, the one of \<^verbatim>\<open>status\<close> included, carries
  the engine root directory and the worker count. The invocation of \<^verbatim>\<open>status\<close> carries
  the root directory alone.
\<close>

theorem status_env_counterexample:
  "supervisor_envs (snd (status (healthy_world no_options) [])) =
     [[(''WATCHAD_ENGINE_DIR'', ''/opt/WatchAD'')]]
   \<and> \<not> list_all (carries_dir_and_num (healthy_world no_options))
         (supervisor_envs (snd (status (healthy_world no_options) [])))"
  by (simp add: status_trace carries_dir_and_num_def healthy_world_def example_world_def)

text \<open>
  C9, amended. The invocations of \<^verbatim>\<open>stop\<close> (two, or one when the call of the stop-all
  command raises) and the invocation of \<^verbatim>\<open>start\<close> (made when the check passes) carry
  exactly two variables, the engine root directory and the worker count, and the worker
  count is the constant 5 in all of them. The invocation of \<^verbatim>\<open>status\<close> carries one
  variable, the engine root directory.
\<close>

theorem supervisor_env_per_operation:
  "supervisor_envs (new_events tr (stop w tr)) =
       (case subprocess_result w
               (tr @ [Log INFO ''Stopping the WatchAD detect engine ...'',
                  SubprocessCall
                    (''supervisorctl -c '' @ project_dir w @ ''/supervisor.conf stop all'')
                    False (engine_env w)]) of
          Exited _ \<Rightarrow> [engine_env w, engine_env w]
        | RaisesOSError \<Rightarrow> [engine_env w])
   \<and> supervisor_envs (new_events tr (start w tr)) =
       (if fst (check w tr) = Returned True then [engine_env w] else [])
   \<and> supervisor_envs (new_events tr (status w tr)) = [[(''WATCHAD_ENGINE_DIR'', project_dir w)]]
   \<and> engine_env w = [(''WATCHAD_ENGINE_DIR'', project_dir w), (''WATCHAD_ENGINE_NUM'', ''5'')]
   \<and> carries_dir_and_num w (engine_env w)"
proof -
  have a: "supervisor_envs (new_events tr (stop w tr)) =
       (case subprocess_result w
               (tr @ [Log INFO ''Stopping the WatchAD detect engine ...'',
                  SubprocessCall
                    (''supervisorctl -c '' @ project_dir w @ ''/supervisor.conf stop all'')
                    False (engine_env w)]) of
          Exited _ \<Rightarrow> [engine_env w, engine_env w]
        | RaisesOSError \<Rightarrow> [engine_env w])"
    by (simp add: stop_trace Let_def new_events_def split: call_result.splits)
  obtain xs where xs: "snd (check w tr) = tr @ xs" "supervisor_envs xs = []"
    using check_extends by blast
  obtain b where b: "fst (check w tr) = Returned b"
    using check_returns by blast
  have b': "check w tr = (Returned b, tr @ xs)"
    using b xs(1) by (cases "check w tr") simp
  have c: "supervisor_envs (new_events tr (start w tr)) =
       (if fst (check w tr) = Returned True then [engine_env w] else [])"
    by (simp add: start_cases b' Let_def new_events_def supervisor_envs_append xs(2)
        split: call_result.splits)
  have d: "supervisor_envs (new_events tr (status w tr)) =
       [[(''WATCHAD_ENGINE_DIR'', project_dir w)]]"
    by (simp add: status_trace Let_def new_events_def)
  have e: "engine_env w =
       [(''WATCHAD_ENGINE_DIR'', project_dir w), (''WATCHAD_ENGINE_NUM'', ''5'')]"
    by (simp add: engine_env_def str_engine_num)
  have f: "carries_dir_and_num w (engine_env w)"
    by (simp add: carries_dir_and_num_def engine_env_def)
  from a c d e f show ?thesis by blast
qed

end
